theory Spec2Isabelle
  imports Main
begin

section \<open>Package-dependency warnings of the import action\<close>

text \<open>
  A shallow embedding of \<^verbatim>\<open>src/api/consumer/lib/import.js\<close>: the functions
  \<^verbatim>\<open>getSemverType\<close>, \<^verbatim>\<open>compatibleWith\<close> and
  \<^verbatim>\<open>warnForPackageDependencies\<close>. The libraries the file imports are not part of
  the repository: \<^verbatim>\<open>semver\<close>, \<^verbatim>\<open>fs.readJSONSync\<close> and
  \<^verbatim>\<open>path.join\<close> are parameters of the model. Of
  \<^verbatim>\<open>warnForPackageDependencies\<close> the model has the reading of
  \<^verbatim>\<open>package.json\<close> up to the call of \<^verbatim>\<open>R.merge\<close> (lines 108 to 116) and the
  two loops over the components and their package dependencies (lines 125 to 146).
\<close>

subsection \<open>JavaScript values and objects\<close>

text \<open>
  The values a version lookup can produce: \<^verbatim>\<open>undefined\<close>, a string, or a value that
  is neither (the functions and objects inherited from \<^verbatim>\<open>Object.prototype\<close>, all of
  them truthy).
  JavaScript strings are sequences of UTF-16 code units; the model uses 8-bit characters, which
  covers the ASCII text of version specifiers.
\<close>

datatype jsval = JUndefined | JString string | JObject

text \<open>Truthiness, as tested by \<^verbatim>\<open>!x\<close>: the empty string is falsy.\<close>

fun truthy :: "jsval \<Rightarrow> bool" where
  "truthy JUndefined = False"
| "truthy (JString s) = (s \<noteq> [])"
| "truthy JObject = True"

text \<open>A plain object is the map of its own properties.\<close>

type_synonym obj = "string \<rightharpoonup> jsval"

definition object_prototype_keys :: "string list" where
  "object_prototype_keys =
     [''constructor'', ''__defineGetter__'', ''__defineSetter__'', ''hasOwnProperty'',
      ''__lookupGetter__'', ''__lookupSetter__'', ''isPrototypeOf'', ''propertyIsEnumerable'',
      ''toString'', ''valueOf'', ''__proto__'', ''toLocaleString'']"

text \<open>
  Property access \<^verbatim>\<open>b[k]\<close> on a plain object: an own property wins, then the
  properties of \<^verbatim>\<open>Object.prototype\<close>, otherwise \<^verbatim>\<open>undefined\<close>.
\<close>

definition getProp :: "obj \<Rightarrow> string \<Rightarrow> jsval" where
  "getProp b k =
     (case b k of
        Some v \<Rightarrow> v
      | None \<Rightarrow> if k \<in> set object_prototype_keys then JObject else JUndefined)"

text \<open>\<^verbatim>\<open>s.startsWith(p)\<close> and \<^verbatim>\<open>s[i]\<close> (\<open>None\<close> is \<^verbatim>\<open>undefined\<close>).\<close>

definition startsWith :: "string \<Rightarrow> string \<Rightarrow> bool" where
  "startsWith s p = (take (length p) s = p)"

definition charAt :: "string \<Rightarrow> nat \<Rightarrow> char option" where
  "charAt s i = (if i < length s then Some (s ! i) else None)"

definition is_digit :: "char \<Rightarrow> bool" where
  "is_digit c = (c \<in> set ''0123456789'')"

definition digit_value :: "char \<Rightarrow> nat" where
  "digit_value c = of_char c - 48"

text \<open>
  \<^verbatim>\<open>parseInt(x, 10)\<close> for \<open>x\<close> the result of \<^verbatim>\<open>s[i]\<close>: a one-character
  string or \<^verbatim>\<open>undefined\<close>. The result is the digit, or \<^verbatim>\<open>NaN\<close> (\<open>None\<close>)
  for \<^verbatim>\<open>undefined\<close> and for every character that is not a decimal digit.
\<close>

definition parseInt :: "char option \<Rightarrow> nat option" where
  "parseInt x =
     (case x of
        None \<Rightarrow> None
      | Some c \<Rightarrow> if is_digit c then Some (digit_value c) else None)"

text \<open>Strict equality \<^verbatim>\<open>===\<close> of two numbers: \<^verbatim>\<open>NaN\<close> equals nothing.\<close>

fun number_eq :: "nat option \<Rightarrow> nat option \<Rightarrow> bool" where
  "number_eq (Some m) (Some n) = (m = n)"
| "number_eq _ _ = False"

subsection \<open>The semver library as a parameter\<close>

datatype error = TypeError | IOError

text \<open>
  The four library functions the code calls. \<^verbatim>\<open>semver.valid\<close> and
  \<^verbatim>\<open>semver.validRange\<close> return a non-empty string or \<^verbatim>\<open>null\<close> and never
  throw; only the truthiness of the result is used. \<^verbatim>\<open>semver.eq\<close> and
  \<^verbatim>\<open>semver.satisfies\<close> return a boolean or throw.
\<close>

record semver =
  semver_valid :: "string \<Rightarrow> bool"
  semver_validRange :: "string \<Rightarrow> bool"
  semver_eq :: "string \<Rightarrow> string \<Rightarrow> error + bool"
  semver_satisfies :: "string \<Rightarrow> string \<Rightarrow> error + bool"

text \<open>
  What the code relies on: comparing two valid versions does not throw, and testing a valid
  version against any range string does not throw.
\<close>

definition semver_contract :: "semver \<Rightarrow> bool" where
  "semver_contract sv =
     ((\<forall>a b. semver_valid sv a \<and> semver_valid sv b \<longrightarrow> (\<exists>r. semver_eq sv a b = Inr r)) \<and>
      (\<forall>v r. semver_valid sv v \<longrightarrow> (\<exists>x. semver_satisfies sv v r = Inr x)))"

subsection \<open>getSemverType and compatibleWith\<close>

datatype semver_type = V | R

text \<open>
  \<^verbatim>\<open>getSemverType\<close>, lines 74 to 78; \<open>None\<close> is \<^verbatim>\<open>null\<close>. For an argument that
  is not a string both library tests give \<^verbatim>\<open>null\<close>.
\<close>

fun getSemverType :: "semver \<Rightarrow> jsval \<Rightarrow> semver_type option" where
  "getSemverType sv (JString str) =
     (if semver_valid sv str then Some V
      else if semver_validRange sv str then Some R
      else None)"
| "getSemverType sv JUndefined = None"
| "getSemverType sv JObject = None"

text \<open>
  The first argument of \<^verbatim>\<open>compatibleWith\<close> is always the one-key object
  \<^verbatim>\<open>{ [name]: version }\<close>, modelled as the pair; \<^verbatim>\<open>key\<close> gives its only key.
\<close>

definition key :: "string \<times> string \<Rightarrow> string" where
  "key a = fst a"

text \<open>\<^verbatim>\<open>compatibleWith\<close>, lines 80 to 99.\<close>

definition compatibleWith :: "semver \<Rightarrow> string \<times> string \<Rightarrow> obj \<Rightarrow> error + bool" where
  "compatibleWith sv a b =
     (let depName = key a in
      if \<not> truthy (getProp b depName) then Inr False
      else
        let bVersion = getProp b depName;
            aVersion = snd a;
            aType = getSemverType sv (JString aVersion);
            bType = getSemverType sv bVersion
        in
          if aType = None \<or> bType = None then Inr False
          else
            (case bVersion of
               JString bStr \<Rightarrow>
                 if aType = Some V \<and> bType = Some V then semver_eq sv aVersion bStr
                 else if aType = Some V \<and> bType = Some R then semver_satisfies sv aVersion bStr
                 else if aType = Some R \<and> bType = Some V then semver_satisfies sv bStr aVersion
                 else if aType = Some R \<and> bType = Some R then
                   (if startsWith aVersion ''^'' \<and> startsWith bStr ''^'' then
                      (let aMajorVersion = parseInt (charAt aVersion 1);
                           bMajorVersion = parseInt (charAt bStr 1)
                       in if number_eq aMajorVersion bMajorVersion then Inr True else Inr False)
                    else Inr False)
                 else Inr False
             | JUndefined \<Rightarrow> Inr False
             | JObject \<Rightarrow> Inr False))"

subsection \<open>warnForPackageDependencies\<close>

text \<open>The three warning lists of line 102; an entry is the pair of a name and a version.\<close>

record warnings =
  notInPackageJson :: "(string \<times> string) list"
  notInNodeModules :: "(string \<times> string) list"
  notInBoth :: "(string \<times> string) list"

definition no_warnings :: warnings where
  "no_warnings = \<lparr>notInPackageJson = [], notInNodeModules = [], notInBoth = []\<rparr>"

text \<open>
  An imported component: its id in string form and its \<^verbatim>\<open>packageDependencies\<close>, absent
  (\<open>None\<close>) or an object whose entries are listed in the order in which
  \<^verbatim>\<open>R.forEachObjIndexed\<close> visits its keys.
\<close>

record component =
  component_id :: string
  packageDependencies :: "(string \<times> string) list option"

text \<open>
  The message of line 132. The code builds it for every visited entry and does not use
  it afterwards.
\<close>

definition basicMessage :: "string \<Rightarrow> string \<Rightarrow> string \<Rightarrow> string" where
  "basicMessage packageDepName packageDepVersion depId =
     ''the npm package { '' @ packageDepName @ '':'' @ packageDepVersion @
     '' } is a package dependency of '' @ depId"

text \<open>
  The callback of \<^verbatim>\<open>R.forEachObjIndexed\<close>, lines 128 to 145: the three tests run one
  after the other on the same two booleans. An exception of \<^verbatim>\<open>compatibleWith\<close>
  leaves the callback.
\<close>

definition packageDep_callback ::
    "semver \<Rightarrow> obj \<Rightarrow> obj \<Rightarrow> warnings \<Rightarrow> string \<times> string \<Rightarrow> error + warnings" where
  "packageDep_callback sv packageJsonDependencies nodeModules w packageDep =
     (case compatibleWith sv packageDep packageJsonDependencies of
        Inl e \<Rightarrow> Inl e
      | Inr compatibleWithPackgeJson \<Rightarrow>
          (case compatibleWith sv packageDep nodeModules of
             Inl e \<Rightarrow> Inl e
           | Inr compatibleWithNodeModules \<Rightarrow>
               (let w1 = (if \<not> compatibleWithPackgeJson \<and> \<not> compatibleWithNodeModules
                          then w\<lparr>notInBoth := notInBoth w @ [packageDep]\<rparr> else w);
                    w2 = (if \<not> compatibleWithPackgeJson \<and> compatibleWithNodeModules
                          then w1\<lparr>notInPackageJson := notInPackageJson w1 @ [packageDep]\<rparr>
                          else w1);
                    w3 = (if compatibleWithPackgeJson \<and> \<not> compatibleWithNodeModules
                          then w2\<lparr>notInNodeModules := notInNodeModules w2 @ [packageDep]\<rparr>
                          else w2)
                in Inr w3)))"

text \<open>
  \<^verbatim>\<open>R.forEachObjIndexed\<close> and \<^verbatim>\<open>Array.prototype.forEach\<close>: the callback runs on
  every element in order, threading the warnings; an exception ends the iteration.
\<close>

fun forEachObjIndexed ::
    "('s \<Rightarrow> string \<times> string \<Rightarrow> error + 's) \<Rightarrow> (string \<times> string) list \<Rightarrow> 's \<Rightarrow> error + 's" where
  "forEachObjIndexed f [] s = Inr s"
| "forEachObjIndexed f (kv # kvs) s =
     (case f s kv of Inl e \<Rightarrow> Inl e | Inr s' \<Rightarrow> forEachObjIndexed f kvs s')"

fun forEach :: "('s \<Rightarrow> 'a \<Rightarrow> error + 's) \<Rightarrow> 'a list \<Rightarrow> 's \<Rightarrow> error + 's" where
  "forEach f [] s = Inr s"
| "forEach f (x # xs) s = (case f s x of Inl e \<Rightarrow> Inl e | Inr s' \<Rightarrow> forEach f xs s')"

text \<open>The callback of \<^verbatim>\<open>dependencies.forEach\<close>, lines 125 to 146.\<close>

definition dependency_callback ::
    "semver \<Rightarrow> obj \<Rightarrow> obj \<Rightarrow> warnings \<Rightarrow> component \<Rightarrow> error + warnings" where
  "dependency_callback sv packageJsonDependencies nodeModules w dep =
     (case packageDependencies dep of
        None \<Rightarrow> Inr w
      | Some pds \<Rightarrow>
          if pds = [] then Inr w
          else forEachObjIndexed (packageDep_callback sv packageJsonDependencies nodeModules) pds w)"

text \<open>
  The part of \<^verbatim>\<open>warnForPackageDependencies\<close> that works on the two version sources
  once they are built: line 102 and lines 125 to 148.
\<close>

definition reconcile :: "semver \<Rightarrow> obj \<Rightarrow> obj \<Rightarrow> component list \<Rightarrow> error + warnings" where
  "reconcile sv packageJsonDependencies nodeModules dependencies =
     forEach (dependency_callback sv packageJsonDependencies nodeModules) dependencies no_warnings"

subsection \<open>Reading package.json\<close>

text \<open>
  What \<^verbatim>\<open>fs.readJSONSync\<close> returns for a readable file: any JSON value, not only an
  object. A number is kept as the literal of the file, which determines the parsed value. An
  object is the list of its members in the order of the file; where a key is repeated the last
  member counts, as in \<^verbatim>\<open>JSON.parse\<close>.
\<close>

datatype json =
    JsonNull
  | JsonBool bool
  | JsonNumber string
  | JsonString string
  | JsonArray "json list"
  | JsonObject "(string \<times> json) list"

text \<open>
  The host: \<^verbatim>\<open>fs.readJSONSync\<close>, which throws on a file that is absent, unreadable or
  not JSON and returns the parsed value otherwise, and \<^verbatim>\<open>path.join\<close>.
\<close>

record host =
  readJSONSync :: "string \<Rightarrow> error + json"
  path_join :: "string list \<Rightarrow> string"

text \<open>
  \<^verbatim>\<open>getPackageJson\<close>, lines 109 to 113: an exception of the read gives the empty
  object \<^verbatim>\<open>{}\<close>; a value that was read is returned as it is.
\<close>

definition getPackageJson :: "host \<Rightarrow> string \<Rightarrow> json" where
  "getPackageJson h dir =
     (case readJSONSync h (path_join h [dir, ''package.json'']) of
        Inl e \<Rightarrow> JsonObject []
      | Inr v \<Rightarrow> v)"

text \<open>
  The two properties that line 116 reads from the value of \<^verbatim>\<open>getPackageJson\<close>.
\<close>

datatype field = Dependencies | DevDependencies

fun field_name :: "field \<Rightarrow> string" where
  "field_name Dependencies = ''dependencies''"
| "field_name DevDependencies = ''devDependencies''"

text \<open>
  The property access \<^verbatim>\<open>v.dependencies\<close> or \<^verbatim>\<open>v.devDependencies\<close> on a JSON
  value: on \<^verbatim>\<open>null\<close> it throws a \<^verbatim>\<open>TypeError\<close>; on an object it gives the
  member of that name or \<^verbatim>\<open>undefined\<close> (\<open>None\<close>); on a boolean, a number, a string
  or an array it gives \<^verbatim>\<open>undefined\<close>, since no prototype defines either name.
\<close>

fun read_field :: "json \<Rightarrow> field \<Rightarrow> error + json option" where
  "read_field JsonNull f = Inl TypeError"
| "read_field (JsonObject kvs) f = Inr (map_of (rev kvs) (field_name f))"
| "read_field (JsonBool b) f = Inr None"
| "read_field (JsonNumber n) f = Inr None"
| "read_field (JsonString s) f = Inr None"
| "read_field (JsonArray xs) f = Inr None"

text \<open>
  \<^verbatim>\<open>warnForPackageDependencies\<close>, lines 101 to 116, up to the two property reads
  that make the arguments of \<^verbatim>\<open>R.merge\<close>. Both reads stand outside the
  \<^verbatim>\<open>try\<close> of \<^verbatim>\<open>getPackageJson\<close>, so an exception of either leaves the function.
  The parameter \<open>rest\<close> stands for all that the function does with the two values it read:
  the two \<^verbatim>\<open>|| {}\<close>, \<^verbatim>\<open>R.merge\<close>, the installed packages of lines 119 to 123
  and the loops of lines 125 to 148.
\<close>

definition warnForPackageDependencies ::
    "host \<Rightarrow> string \<Rightarrow> (json option \<Rightarrow> json option \<Rightarrow> error + warnings) \<Rightarrow> error + warnings" where
  "warnForPackageDependencies h projectDir rest =
     (let packageJson = getPackageJson h projectDir in
      case read_field packageJson Dependencies of
        Inl e \<Rightarrow> Inl e
      | Inr dependencies \<Rightarrow>
          (case read_field packageJson DevDependencies of
             Inl e \<Rightarrow> Inl e
           | Inr devDependencies \<Rightarrow> rest dependencies devDependencies))"

subsection \<open>Notions used to state the properties\<close>

text \<open>
  The compatibility test as a predicate: \<^verbatim>\<open>compatibleWith\<close> returns
  \<^verbatim>\<open>true\<close> for the declared pair and the source.
\<close>

definition isCompatible :: "semver \<Rightarrow> string \<Rightarrow> string \<Rightarrow> obj \<Rightarrow> bool" where
  "isCompatible sv depName specA sourceB = (compatibleWith sv (depName, specA) sourceB = Inr True)"

text \<open>
  The pairs the two loops visit, in the order of the visits: the components in array order
  and, within a component, its entries in key order. A component without
  \<^verbatim>\<open>packageDependencies\<close> contributes none.
\<close>

definition declared_of :: "component \<Rightarrow> (string \<times> string) list" where
  "declared_of dep = (case packageDependencies dep of None \<Rightarrow> [] | Some pds \<Rightarrow> pds)"

definition evaluated_pairs :: "component list \<Rightarrow> (string \<times> string) list" where
  "evaluated_pairs dependencies = concat (map declared_of dependencies)"

text \<open>Appending to each of the three lists.\<close>

definition extend ::
    "warnings \<Rightarrow> (string \<times> string) list \<Rightarrow> (string \<times> string) list \<Rightarrow>
     (string \<times> string) list \<Rightarrow> warnings" where
  "extend w xs ys zs =
     \<lparr>notInPackageJson = notInPackageJson w @ xs,
      notInNodeModules = notInNodeModules w @ ys,
      notInBoth = notInBoth w @ zs\<rparr>"

subsection \<open>An instance of the library interface\<close>

text \<open>
  To run the definitions on concrete specifiers, an instance that follows the semver library on
  a fragment of its grammar: plain versions \<^verbatim>\<open>M.m.p\<close> of numeric identifiers without
  leading zeros, and as ranges the empty string and \<^verbatim>\<open>*\<close> (any version), a plain
  version, and a caret range \<^verbatim>\<open>^M.m.p\<close>. Every other string is rejected here.
\<close>

fun split_dots :: "string \<Rightarrow> string list" where
  "split_dots [] = [[]]"
| "split_dots (c # cs) =
     (if c = CHR ''.'' then [] # split_dots cs
      else (case split_dots cs of [] \<Rightarrow> [[c]] | p # ps \<Rightarrow> (c # p) # ps))"

definition numeric_identifier :: "string \<Rightarrow> bool" where
  "numeric_identifier s =
     (s \<noteq> [] \<and> list_all is_digit s \<and> (length s = 1 \<or> hd s \<noteq> CHR ''0''))"

definition numeric_value :: "string \<Rightarrow> nat" where
  "numeric_value s = foldl (\<lambda>n c. 10 * n + digit_value c) 0 s"

definition parse_version :: "string \<Rightarrow> (nat \<times> nat \<times> nat) option" where
  "parse_version s =
     (case split_dots s of
        [a, b, c] \<Rightarrow>
          if numeric_identifier a \<and> numeric_identifier b \<and> numeric_identifier c
          then Some (numeric_value a, numeric_value b, numeric_value c)
          else None
      | _ \<Rightarrow> None)"

datatype range = AnyVersion | Exactly "nat \<times> nat \<times> nat" | Caret "nat \<times> nat \<times> nat"

definition parse_range :: "string \<Rightarrow> range option" where
  "parse_range s =
     (if s = [] \<or> s = ''*'' then Some AnyVersion
      else if startsWith s ''^'' then map_option Caret (parse_version (tl s))
      else map_option Exactly (parse_version s))"

fun version_less :: "nat \<times> nat \<times> nat \<Rightarrow> nat \<times> nat \<times> nat \<Rightarrow> bool" where
  "version_less (a, b, c) (x, y, z) = (a < x \<or> (a = x \<and> (b < y \<or> (b = y \<and> c < z))))"

text \<open>The upper end of a caret range: the next change of the leftmost non-zero part.\<close>

fun caret_upper :: "nat \<times> nat \<times> nat \<Rightarrow> nat \<times> nat \<times> nat" where
  "caret_upper (a, b, c) =
     (if a > 0 then (a + 1, 0, 0) else if b > 0 then (0, b + 1, 0) else (0, 0, c + 1))"

fun range_test :: "range \<Rightarrow> nat \<times> nat \<times> nat \<Rightarrow> bool" where
  "range_test AnyVersion v = True"
| "range_test (Exactly w) v = (v = w)"
| "range_test (Caret w) v = (\<not> version_less v w \<and> version_less v (caret_upper w))"

definition core_eq :: "string \<Rightarrow> string \<Rightarrow> error + bool" where
  "core_eq a b =
     (case parse_version a of
        None \<Rightarrow> Inl TypeError
      | Some x \<Rightarrow> (case parse_version b of None \<Rightarrow> Inl TypeError | Some y \<Rightarrow> Inr (x = y)))"

definition core_satisfies :: "string \<Rightarrow> string \<Rightarrow> error + bool" where
  "core_satisfies v r =
     (case parse_range r of
        None \<Rightarrow> Inr False
      | Some rg \<Rightarrow>
          if v = [] then Inr False
          else (case parse_version v of None \<Rightarrow> Inl TypeError | Some x \<Rightarrow> Inr (range_test rg x)))"

definition semver_core :: semver where
  "semver_core =
     \<lparr>semver_valid = (\<lambda>s. parse_version s \<noteq> None),
      semver_validRange = (\<lambda>s. parse_range s \<noteq> None),
      semver_eq = core_eq,
      semver_satisfies = core_satisfies\<rparr>"

text \<open>
  Two hosts that join paths with a slash: on the first no file can be read, on the second
  every \<^verbatim>\<open>package.json\<close> holds the JSON text \<^verbatim>\<open>null\<close>.
\<close>

fun join_slash :: "string list \<Rightarrow> string" where
  "join_slash [] = []"
| "join_slash [p] = p"
| "join_slash (p # q # ps) = p @ ''/'' @ join_slash (q # ps)"

definition unreadable_host :: host where
  "unreadable_host = \<lparr>readJSONSync = (\<lambda>p. Inl IOError), path_join = join_slash\<rparr>"

definition null_host :: host where
  "null_host = \<lparr>readJSONSync = (\<lambda>p. Inr JsonNull), path_join = join_slash\<rparr>"

text \<open>A project and four imported components, to run the reporter on.\<close>

definition manifest_example :: obj where
  "manifest_example = [''lodash'' \<mapsto> JString ''^4.5.0'', ''chalk'' \<mapsto> JString ''^2.3.0'']"

definition installed_example :: obj where
  "installed_example = [''react'' \<mapsto> JString ''16.0.0'', ''chalk'' \<mapsto> JString ''2.4.1'']"

definition components_example :: "component list" where
  "components_example =
     [\<lparr>component_id = ''ui/button'',
       packageDependencies =
         Some [(''moment'', ''2.0.0''), (''lodash'', ''^4.1.0''), (''react'', ''16.0.0'')]\<rparr>,
      \<lparr>component_id = ''ui/empty'', packageDependencies = Some []\<rparr>,
      \<lparr>component_id = ''ui/bare'', packageDependencies = None\<rparr>,
      \<lparr>component_id = ''ui/card'',
       packageDependencies =
         Some [(''left-pad'', ''1.3.0''), (''chalk'', ''^2.0.0''), (''axios'', ''0.1.0'')]\<rparr>]"

text \<open>A source without any version string: no own property holds a string.\<close>

definition no_versions :: "obj \<Rightarrow> bool" where
  "no_versions b = (\<forall>k s. b k \<noteq> Some (JString s))"

text \<open>Both compatibility tests of a visited pair return (neither throws).\<close>

definition answered :: "semver \<Rightarrow> obj \<Rightarrow> obj \<Rightarrow> string \<times> string \<Rightarrow> bool" where
  "answered sv m i p =
     ((\<exists>r. compatibleWith sv p m = Inr r) \<and> (\<exists>r. compatibleWith sv p i = Inr r))"

section \<open>Properties of compatibleWith\<close>

subsection \<open>Auxiliary facts\<close>

lemma getProp_absent_not_string:
  "b k = None \<Longrightarrow> getProp b k = JUndefined \<or> getProp b k = JObject"
  by (simp add: getProp_def)

lemma getProp_own: "b k = Some v \<Longrightarrow> getProp b k = v"
  by (simp add: getProp_def)

text \<open>The result on a source whose entry is a non-empty string, by the two types.\<close>

lemma compatibleWith_string:
  "b name = Some (JString bv) \<Longrightarrow> bv \<noteq> [] \<Longrightarrow>
   compatibleWith sv (name, av) b =
     (case (getSemverType sv (JString av), getSemverType sv (JString bv)) of
        (Some V, Some V) \<Rightarrow> semver_eq sv av bv
      | (Some V, Some R) \<Rightarrow> semver_satisfies sv av bv
      | (Some R, Some V) \<Rightarrow> semver_satisfies sv bv av
      | (Some R, Some R) \<Rightarrow>
          Inr (startsWith av ''^'' \<and> startsWith bv ''^'' \<and>
               number_eq (parseInt (charAt av 1)) (parseInt (charAt bv 1)))
      | _ \<Rightarrow> Inr False)"
  by (auto simp add: compatibleWith_def key_def getProp_def Let_def
      split: option.splits semver_type.splits)

lemma compatibleWith_falsy:
  "\<not> truthy (getProp b name) \<Longrightarrow> compatibleWith sv (name, av) b = Inr False"
  by (simp add: compatibleWith_def key_def)

lemma compatibleWith_not_string:
  "getProp b name = JObject \<Longrightarrow> compatibleWith sv (name, av) b = Inr False"
  by (simp add: compatibleWith_def key_def)

lemma compatibleWith_no_version:
  assumes "\<And>s. getProp b name = JString s \<Longrightarrow> s = []"
  shows "compatibleWith sv (name, version) b = Inr False"
proof (cases "getProp b name")
  case JUndefined
  then show ?thesis by (simp add: compatibleWith_falsy)
next
  case (JString s)
  then show ?thesis using assms [of s] by (simp add: compatibleWith_falsy)
next
  case JObject
  then show ?thesis by (rule compatibleWith_not_string)
qed

lemma digit_value_inj:
  "is_digit c \<Longrightarrow> is_digit d \<Longrightarrow> (digit_value c = digit_value d) = (c = d)"
  by (auto simp add: is_digit_def digit_value_def)

lemma number_eq_parseInt:
  "number_eq (parseInt x) (parseInt y) = (\<exists>d. is_digit d \<and> x = Some d \<and> y = Some d)"
  by (cases x; cases y) (auto simp add: parseInt_def digit_value_inj)

text \<open>Under the library contract \<^verbatim>\<open>compatibleWith\<close> returns a boolean.\<close>

lemma compatibleWith_total:
  assumes "semver_contract sv"
  shows "\<exists>r. compatibleWith sv a b = Inr r"
proof (cases "getProp b (fst a)")
  case JUndefined
  then show ?thesis using compatibleWith_falsy [of b "fst a" sv "snd a"] by auto
next
  case JObject
  then show ?thesis using compatibleWith_not_string [of b "fst a" sv "snd a"] by auto
next
  case (JString bv)
  show ?thesis
  proof (cases "bv = []")
    case True
    then show ?thesis using JString compatibleWith_falsy [of b "fst a" sv "snd a"] by auto
  next
    case False
    have eq: "semver_valid sv (snd a) \<Longrightarrow> semver_valid sv bv \<Longrightarrow>
        \<exists>r. semver_eq sv (snd a) bv = Inr r"
      using assms by (simp add: semver_contract_def)
    have sat: "\<And>v r. semver_valid sv v \<Longrightarrow> \<exists>x. semver_satisfies sv v r = Inr x"
      using assms by (simp add: semver_contract_def)
    show ?thesis
      using JString False eq sat [of "snd a" bv] sat [of bv "snd a"]
      by (auto simp add: compatibleWith_def key_def Let_def)
  qed
qed

lemma semver_core_contract: "semver_contract semver_core"
  by (auto simp add: semver_contract_def semver_core_def core_eq_def core_satisfies_def
      split: option.splits)

subsection \<open>The claims about getSemverType and compatibleWith\<close>

text \<open>
  Claim C6. For every string, \<^verbatim>\<open>getSemverType\<close> returns exactly one of
  \<^verbatim>\<open>'V'\<close>, \<^verbatim>\<open>'R'\<close> and \<^verbatim>\<open>null\<close>: \<^verbatim>\<open>'V'\<close> exactly when the string
  is a valid version, \<^verbatim>\<open>'R'\<close> exactly when it is a valid range and not a valid version
  (the version test comes first), and \<^verbatim>\<open>null\<close> exactly when it is neither.
\<close>

theorem getSemverType_classifies:
  "(getSemverType sv (JString s) = Some V) = semver_valid sv s \<and>
   (getSemverType sv (JString s) = Some R) = (\<not> semver_valid sv s \<and> semver_validRange sv s) \<and>
   (getSemverType sv (JString s) = None) = (\<not> semver_valid sv s \<and> \<not> semver_validRange sv s)"
  by simp

theorem getSemverType_classifies_witness:
  "getSemverType semver_core (JString ''1.2.3'') = Some V \<and>
   semver_validRange semver_core ''1.2.3'' \<and>
   getSemverType semver_core (JString ''^1.2.3'') = Some R \<and>
   getSemverType semver_core (JString ''latest'') = None"
proof -
  have v: "semver_valid semver_core ''1.2.3''" by code_simp
  have r: "semver_validRange semver_core ''1.2.3''" by code_simp
  have v2: "\<not> semver_valid semver_core ''^1.2.3''" by code_simp
  have r2: "semver_validRange semver_core ''^1.2.3''" by code_simp
  have v3: "\<not> semver_valid semver_core ''latest''" by code_simp
  have r3: "\<not> semver_validRange semver_core ''latest''" by code_simp
  show ?thesis
    using v r v2 r2 v3 r3
      getSemverType_classifies [of semver_core "''1.2.3''"]
      getSemverType_classifies [of semver_core "''^1.2.3''"]
      getSemverType_classifies [of semver_core "''latest''"]
    by simp
qed

text \<open>
  Claim C4. If the source has no entry for the dependency name, \<^verbatim>\<open>compatibleWith\<close>
  returns \<^verbatim>\<open>false\<close>, whatever the declared specifier is. This includes the names that
  \<^verbatim>\<open>Object.prototype\<close> defines, for which the lookup gives a value that is not a string.
\<close>

theorem compatibleWith_absent:
  "b name = None \<Longrightarrow> compatibleWith sv (name, version) b = Inr False"
  using getProp_absent_not_string [of b name]
  by (auto simp add: compatibleWith_falsy compatibleWith_not_string)

theorem compatibleWith_absent_witness:
  "Map.empty ''lodash'' = None \<and>
   compatibleWith semver_core (''lodash'', ''^4.1.0'') Map.empty = Inr False \<and>
   [''lodash'' \<mapsto> JString ''4.17.21''] ''constructor'' = None \<and>
   compatibleWith semver_core (''constructor'', ''1.0.0'') [''lodash'' \<mapsto> JString ''4.17.21'']
     = Inr False"
proof -
  have h1: "(Map.empty :: obj) ''lodash'' = None" by simp
  have h2: "[''lodash'' \<mapsto> JString ''4.17.21''] ''constructor'' = None" by simp
  show ?thesis
    using h1 h2
      compatibleWith_absent [of Map.empty "''lodash''" semver_core "''^4.1.0''"]
      compatibleWith_absent [of "[''lodash'' \<mapsto> JString ''4.17.21'']" "''constructor''"
        semver_core "''1.0.0''"]
    by simp
qed

text \<open>
  Claim C5. For a name present in the source, if the declared specifier or the source's
  specifier classifies as invalid, \<^verbatim>\<open>compatibleWith\<close> returns \<^verbatim>\<open>false\<close>; this
  holds for every library, also one whose comparison functions always throw, so the test of
  line 87 comes before any call of them. And under the library contract no input makes
  \<^verbatim>\<open>compatibleWith\<close> throw.
\<close>

theorem compatibleWith_invalid:
  "(b name = Some bVersion \<and>
      (getSemverType sv (JString aVersion) = None \<or> getSemverType sv bVersion = None)
      \<longrightarrow> compatibleWith sv (name, aVersion) b = Inr False) \<and>
   (semver_contract sv \<longrightarrow> (\<exists>r. compatibleWith sv (name, aVersion) b = Inr r))"
proof (intro conjI impI)
  assume h: "b name = Some bVersion \<and>
      (getSemverType sv (JString aVersion) = None \<or> getSemverType sv bVersion = None)"
  then have "getProp b name = bVersion" by (simp add: getProp_own)
  with h show "compatibleWith sv (name, aVersion) b = Inr False"
    by (auto simp add: compatibleWith_def key_def Let_def)
next
  assume "semver_contract sv"
  then show "\<exists>r. compatibleWith sv (name, aVersion) b = Inr r" by (rule compatibleWith_total)
qed


theorem compatibleWith_invalid_witness:
  "[''lodash'' \<mapsto> JString ''latest''] ''lodash'' = Some (JString ''latest'') \<and>
   getSemverType semver_core (JString ''latest'') = None \<and>
   compatibleWith semver_core (''lodash'', ''^4.1.0'') [''lodash'' \<mapsto> JString ''latest'']
     = Inr False \<and>
   compatibleWith
     (semver_core\<lparr>semver_eq := \<lambda>a b. Inl TypeError, semver_satisfies := \<lambda>v r. Inl TypeError\<rparr>)
     (''lodash'', ''not a version'') [''lodash'' \<mapsto> JString ''4.17.21''] = Inr False \<and>
   semver_contract semver_core \<and>
   (\<exists>r. compatibleWith semver_core (''lodash'', ''4.17.21'') [''lodash'' \<mapsto> JString ''^4.1.0'']
     = Inr r)"
proof -
  have m: "[''lodash'' \<mapsto> JString ''latest''] ''lodash'' = Some (JString ''latest'')" by simp
  have t: "getSemverType semver_core (JString ''latest'') = None" by code_simp
  have m2: "[''lodash'' \<mapsto> JString ''4.17.21''] ''lodash'' = Some (JString ''4.17.21'')" by simp
  have t2: "getSemverType
     (semver_core\<lparr>semver_eq := \<lambda>a b. Inl TypeError, semver_satisfies := \<lambda>v r. Inl TypeError\<rparr>)
     (JString ''not a version'') = None" by code_simp
  show ?thesis
    using m t m2 t2 semver_core_contract
      compatibleWith_invalid [of "[''lodash'' \<mapsto> JString ''latest'']" "''lodash''"
        "JString ''latest''" semver_core "''^4.1.0''"]
      compatibleWith_invalid [of "[''lodash'' \<mapsto> JString ''4.17.21'']" "''lodash''"
        "JString ''4.17.21''"
        "semver_core\<lparr>semver_eq := \<lambda>a b. Inl TypeError, semver_satisfies := \<lambda>v r. Inl TypeError\<rparr>"
        "''not a version''"]
      compatibleWith_invalid [of "[''lodash'' \<mapsto> JString ''^4.1.0'']" "''lodash''"
        "JString ''^4.1.0''" semver_core "''4.17.21''"]
    by simp
qed

text \<open>
  Claim C3 says that the two mixed cases are symmetric: an exact version against a range is
  compatible exactly when the version satisfies the range, whichever side carries the version.
  The code breaks this for the empty range. For every library that, like semver, accepts the
  empty string as a range that the version \<open>v\<close> satisfies: a source entry \<^verbatim>\<open>""\<close> is
  taken by line 82 for a missing dependency and the result is \<^verbatim>\<open>false\<close>, while with
  the operands swapped line 90 asks the library and the result is \<^verbatim>\<open>true\<close>.
\<close>

theorem compatibleWith_empty_range_entry:
  assumes "semver_valid sv v"
    and "\<not> semver_valid sv []"
    and "semver_validRange sv []"
    and "semver_satisfies sv v [] = Inr True"
  shows "getSemverType sv (JString v) = Some V \<and>
         getSemverType sv (JString []) = Some R \<and>
         compatibleWith sv (name, v) [name \<mapsto> JString []] = Inr False \<and>
         compatibleWith sv (name, []) [name \<mapsto> JString v] = Inr True"
proof -
  have ne: "v \<noteq> []" using assms(1,2) by auto
  have a: "compatibleWith sv (name, v) [name \<mapsto> JString []] = Inr False"
    by (rule compatibleWith_falsy) (simp add: getProp_def)
  have m: "[name \<mapsto> JString v] name = Some (JString v)" by simp
  have b: "compatibleWith sv (name, []) [name \<mapsto> JString v] = Inr True"
    using assms by (simp add: compatibleWith_string [of "[name \<mapsto> JString v]" name v sv, OF m ne])
  show ?thesis using a b assms by simp
qed

theorem compatibleWith_empty_range_entry_witness:
  "semver_valid semver_core ''4.17.21'' \<and>
   \<not> semver_valid semver_core [] \<and>
   semver_validRange semver_core [] \<and>
   semver_satisfies semver_core ''4.17.21'' [] = Inr True \<and>
   compatibleWith semver_core (''lodash'', ''4.17.21'') [''lodash'' \<mapsto> JString []] = Inr False \<and>
   compatibleWith semver_core (''lodash'', []) [''lodash'' \<mapsto> JString ''4.17.21''] = Inr True"
proof -
  have h1: "semver_valid semver_core ''4.17.21''" by code_simp
  have h2: "\<not> semver_valid semver_core []" by code_simp
  have h3: "semver_validRange semver_core []" by code_simp
  have h4: "semver_satisfies semver_core ''4.17.21'' [] = Inr True" by code_simp
  show ?thesis
    using h1 h2 h3 h4 compatibleWith_empty_range_entry [OF h1 h2 h3 h4, of "''lodash''"]
    by simp
qed

text \<open>
  Claim C2. When the declared specifier and the source's specifier both classify as ranges,
  \<^verbatim>\<open>compatibleWith\<close> returns \<^verbatim>\<open>true\<close> exactly when both start with a caret and
  the character after the caret is the same decimal digit on both sides; every other pair of
  ranges gives \<^verbatim>\<open>false\<close>.
\<close>

theorem compatibleWith_range_range:
  assumes "b name = Some (JString bv)"
    and "getSemverType sv (JString av) = Some R"
    and "getSemverType sv (JString bv) = Some R"
  shows "compatibleWith sv (name, av) b =
     Inr (startsWith av ''^'' \<and> startsWith bv ''^'' \<and>
          (\<exists>d. is_digit d \<and> charAt av 1 = Some d \<and> charAt bv 1 = Some d))"
proof (cases "bv = []")
  case True
  then have "\<not> truthy (getProp b name)" using assms(1) by (simp add: getProp_own)
  then have "compatibleWith sv (name, av) b = Inr False" by (rule compatibleWith_falsy)
  moreover have "\<not> startsWith bv ''^''" using True by (simp add: startsWith_def)
  ultimately show ?thesis by simp
next
  case False
  show ?thesis
    using assms(2,3) by (simp add: compatibleWith_string [of b name bv sv av, OF assms(1) False] number_eq_parseInt)
qed


theorem compatibleWith_range_range_witness:
  "getSemverType semver_core (JString ''^2.1.0'') = Some R \<and>
   getSemverType semver_core (JString ''^2.9.9'') = Some R \<and>
   compatibleWith semver_core (''lodash'', ''^2.1.0'') [''lodash'' \<mapsto> JString ''^2.9.9'']
     = Inr True \<and>
   getSemverType semver_core (JString ''^1.0.0'') = Some R \<and>
   getSemverType semver_core (JString ''^2.0.0'') = Some R \<and>
   compatibleWith semver_core (''lodash'', ''^1.0.0'') [''lodash'' \<mapsto> JString ''^2.0.0'']
     = Inr False \<and>
   getSemverType semver_core (JString ''*'') = Some R \<and>
   compatibleWith semver_core (''lodash'', ''*'') [''lodash'' \<mapsto> JString ''*''] = Inr False"
proof -
  have a: "getSemverType semver_core (JString ''^2.1.0'') = Some R" by code_simp
  have b: "getSemverType semver_core (JString ''^2.9.9'') = Some R" by code_simp
  have c: "getSemverType semver_core (JString ''^1.0.0'') = Some R" by code_simp
  have d: "getSemverType semver_core (JString ''^2.0.0'') = Some R" by code_simp
  have e: "getSemverType semver_core (JString ''*'') = Some R" by code_simp
  have m1: "[''lodash'' \<mapsto> JString ''^2.9.9''] ''lodash'' = Some (JString ''^2.9.9'')" by simp
  have m2: "[''lodash'' \<mapsto> JString ''^2.0.0''] ''lodash'' = Some (JString ''^2.0.0'')" by simp
  have m3: "[''lodash'' \<mapsto> JString ''*''] ''lodash'' = Some (JString ''*'')" by simp
  have r1: "compatibleWith semver_core (''lodash'', ''^2.1.0'') [''lodash'' \<mapsto> JString ''^2.9.9'']
     = Inr True"
    using compatibleWith_range_range [of "[''lodash'' \<mapsto> JString ''^2.9.9'']" "''lodash''", OF m1 a b] by (simp add: startsWith_def charAt_def is_digit_def)
  have r2: "compatibleWith semver_core (''lodash'', ''^1.0.0'') [''lodash'' \<mapsto> JString ''^2.0.0'']
     = Inr False"
    using compatibleWith_range_range [of "[''lodash'' \<mapsto> JString ''^2.0.0'']" "''lodash''", OF m2 c d] by (simp add: startsWith_def charAt_def is_digit_def)
  have r3: "compatibleWith semver_core (''lodash'', ''*'') [''lodash'' \<mapsto> JString ''*''] = Inr False"
    using compatibleWith_range_range [of "[''lodash'' \<mapsto> JString ''*'']" "''lodash''", OF m3 e e] by (simp add: startsWith_def charAt_def is_digit_def)
  show ?thesis using a b c d e r1 r2 r3 by simp
qed

text \<open>
  Claim C10. The rule for two ranges looks only at the character at index 1: two caret
  specifiers with the same digit after the caret are compatible whatever follows, so
  \<^verbatim>\<open>^10.0.0\<close> is compatible with \<^verbatim>\<open>^1.0.0\<close> and with \<^verbatim>\<open>^12.0.0\<close>
  although the major versions differ.
\<close>

theorem compatibleWith_caret_first_digit:
  assumes "is_digit d"
    and "getSemverType sv (JString (CHR ''^'' # d # ra)) = Some R"
    and "getSemverType sv (JString (CHR ''^'' # d # rb)) = Some R"
    and "b name = Some (JString (CHR ''^'' # d # rb))"
  shows "compatibleWith sv (name, CHR ''^'' # d # ra) b = Inr True"
proof -
  have ne: "CHR ''^'' # d # rb \<noteq> []" by simp
  show ?thesis
    using assms(1,2,3)
    by (simp add: compatibleWith_string [of b name "CHR ''^'' # d # rb" sv, OF assms(4) ne]
        number_eq_parseInt startsWith_def charAt_def)
qed

theorem compatibleWith_caret_first_digit_witness:
  "parse_range ''^10.0.0'' = Some (Caret (10, 0, 0)) \<and>
   parse_range ''^1.0.0'' = Some (Caret (1, 0, 0)) \<and>
   parse_range ''^12.0.0'' = Some (Caret (12, 0, 0)) \<and>
   compatibleWith semver_core (''lodash'', ''^10.0.0'') [''lodash'' \<mapsto> JString ''^1.0.0'']
     = Inr True \<and>
   compatibleWith semver_core (''lodash'', ''^10.0.0'') [''lodash'' \<mapsto> JString ''^12.0.0'']
     = Inr True"
proof -
  have p1: "parse_range ''^10.0.0'' = Some (Caret (10, 0, 0))" by code_simp
  have p2: "parse_range ''^1.0.0'' = Some (Caret (1, 0, 0))" by code_simp
  have p3: "parse_range ''^12.0.0'' = Some (Caret (12, 0, 0))" by code_simp
  have d: "is_digit CHR ''1''" by (simp add: is_digit_def)
  have t1: "getSemverType semver_core (JString (CHR ''^'' # CHR ''1'' # ''0.0.0'')) = Some R"
    by code_simp
  have t2: "getSemverType semver_core (JString (CHR ''^'' # CHR ''1'' # ''.0.0'')) = Some R"
    by code_simp
  have t3: "getSemverType semver_core (JString (CHR ''^'' # CHR ''1'' # ''2.0.0'')) = Some R"
    by code_simp
  have m2: "[''lodash'' \<mapsto> JString ''^1.0.0''] ''lodash''
      = Some (JString (CHR ''^'' # CHR ''1'' # ''.0.0''))" by simp
  have m3: "[''lodash'' \<mapsto> JString ''^12.0.0''] ''lodash''
      = Some (JString (CHR ''^'' # CHR ''1'' # ''2.0.0''))" by simp
  show ?thesis
    using p1 p2 p3
      compatibleWith_caret_first_digit [of "CHR ''1''" semver_core "''0.0.0''" "''.0.0''"
        "[''lodash'' \<mapsto> JString ''^1.0.0'']" "''lodash''", OF d t1 t2 m2]
      compatibleWith_caret_first_digit [of "CHR ''1''" semver_core "''0.0.0''" "''2.0.0''"
        "[''lodash'' \<mapsto> JString ''^12.0.0'']" "''lodash''", OF d t1 t3 m3]
    by simp
qed

section \<open>Properties of warnForPackageDependencies\<close>

subsection \<open>The two loops as filters\<close>

text \<open>
  When no compatibility test throws, the loops append to each list the visited pairs that
  pass the list's test, in the order of the visits.
\<close>

lemma extend_nothing: "extend w [] [] [] = w"
  by (simp add: extend_def)

lemma extend_extend:
  "extend (extend w xs ys zs) xs' ys' zs' = extend w (xs @ xs') (ys @ ys') (zs @ zs')"
  by (simp add: extend_def)

lemma packageDep_callback_extend:
  assumes "answered sv m i p"
  shows "packageDep_callback sv m i w p =
     Inr (extend w
       (filter (\<lambda>(n, v). \<not> isCompatible sv n v m \<and> isCompatible sv n v i) [p])
       (filter (\<lambda>(n, v). isCompatible sv n v m \<and> \<not> isCompatible sv n v i) [p])
       (filter (\<lambda>(n, v). \<not> isCompatible sv n v m \<and> \<not> isCompatible sv n v i) [p]))"
proof -
  obtain r1 r2 where r: "compatibleWith sv p m = Inr r1" "compatibleWith sv p i = Inr r2"
    using assms by (auto simp add: answered_def)
  obtain n v where p: "p = (n, v)" by (cases p)
  show ?thesis
    using r by (cases r1; cases r2) (simp_all add: p packageDep_callback_def isCompatible_def extend_def)
qed

lemma forEachObjIndexed_extend:
  assumes "\<And>p. p \<in> set pds \<Longrightarrow> answered sv m i p"
  shows "forEachObjIndexed (packageDep_callback sv m i) pds w =
     Inr (extend w
       (filter (\<lambda>(n, v). \<not> isCompatible sv n v m \<and> isCompatible sv n v i) pds)
       (filter (\<lambda>(n, v). isCompatible sv n v m \<and> \<not> isCompatible sv n v i) pds)
       (filter (\<lambda>(n, v). \<not> isCompatible sv n v m \<and> \<not> isCompatible sv n v i) pds))"
  using assms
proof (induction pds arbitrary: w)
  case Nil
  show ?case by (simp add: extend_nothing)
next
  case (Cons p pds)
  have step: "packageDep_callback sv m i w p =
     Inr (extend w
       (filter (\<lambda>(n, v). \<not> isCompatible sv n v m \<and> isCompatible sv n v i) [p])
       (filter (\<lambda>(n, v). isCompatible sv n v m \<and> \<not> isCompatible sv n v i) [p])
       (filter (\<lambda>(n, v). \<not> isCompatible sv n v m \<and> \<not> isCompatible sv n v i) [p]))"
    by (rule packageDep_callback_extend) (simp add: Cons.prems)
  have rest: "\<And>q. q \<in> set pds \<Longrightarrow> answered sv m i q" by (simp add: Cons.prems)
  show ?case
    by (simp only: forEachObjIndexed.simps step sum.case Cons.IH [OF rest] extend_extend
        filter_append [symmetric] append_Cons append_Nil)
qed

lemma dependency_callback_extend:
  assumes "\<And>p. p \<in> set (declared_of dep) \<Longrightarrow> answered sv m i p"
  shows "dependency_callback sv m i w dep =
     Inr (extend w
       (filter (\<lambda>(n, v). \<not> isCompatible sv n v m \<and> isCompatible sv n v i) (declared_of dep))
       (filter (\<lambda>(n, v). isCompatible sv n v m \<and> \<not> isCompatible sv n v i) (declared_of dep))
       (filter (\<lambda>(n, v). \<not> isCompatible sv n v m \<and> \<not> isCompatible sv n v i) (declared_of dep)))"
proof (cases "packageDependencies dep")
  case None
  then show ?thesis by (simp add: dependency_callback_def declared_of_def extend_nothing)
next
  case (Some pds)
  then have d: "declared_of dep = pds" by (simp add: declared_of_def)
  show ?thesis
  proof (cases "pds = []")
    case True
    then show ?thesis using Some by (simp add: dependency_callback_def d extend_nothing)
  next
    case False
    have "\<And>p. p \<in> set pds \<Longrightarrow> answered sv m i p" using assms d by simp
    then show ?thesis
      using Some False by (simp add: dependency_callback_def d forEachObjIndexed_extend)
  qed
qed

lemma forEach_extend:
  assumes "\<And>p. p \<in> set (evaluated_pairs deps) \<Longrightarrow> answered sv m i p"
  shows "forEach (dependency_callback sv m i) deps w =
     Inr (extend w
       (filter (\<lambda>(n, v). \<not> isCompatible sv n v m \<and> isCompatible sv n v i) (evaluated_pairs deps))
       (filter (\<lambda>(n, v). isCompatible sv n v m \<and> \<not> isCompatible sv n v i) (evaluated_pairs deps))
       (filter (\<lambda>(n, v). \<not> isCompatible sv n v m \<and> \<not> isCompatible sv n v i) (evaluated_pairs deps)))"
  using assms
proof (induction deps arbitrary: w)
  case Nil
  show ?case by (simp add: evaluated_pairs_def extend_nothing)
next
  case (Cons dep deps)
  have e: "evaluated_pairs (dep # deps) = declared_of dep @ evaluated_pairs deps"
    by (simp add: evaluated_pairs_def)
  have here: "\<And>p. p \<in> set (declared_of dep) \<Longrightarrow> answered sv m i p"
    using Cons.prems by (simp add: e)
  have rest: "\<And>p. p \<in> set (evaluated_pairs deps) \<Longrightarrow> answered sv m i p"
    using Cons.prems by (simp add: e)
  show ?case
    by (simp only: forEach.simps dependency_callback_extend [OF here] sum.case
        Cons.IH [OF rest] extend_extend e filter_append)
qed

lemma reconcile_filters:
  assumes "\<And>p. p \<in> set (evaluated_pairs deps) \<Longrightarrow> answered sv m i p"
  shows "reconcile sv m i deps =
     Inr \<lparr>notInPackageJson =
            filter (\<lambda>(n, v). \<not> isCompatible sv n v m \<and> isCompatible sv n v i) (evaluated_pairs deps),
          notInNodeModules =
            filter (\<lambda>(n, v). isCompatible sv n v m \<and> \<not> isCompatible sv n v i) (evaluated_pairs deps),
          notInBoth =
            filter (\<lambda>(n, v). \<not> isCompatible sv n v m \<and> \<not> isCompatible sv n v i) (evaluated_pairs deps)\<rparr>"
  by (simp add: reconcile_def forEach_extend [OF assms] extend_def no_warnings_def)

lemma contract_answered: "semver_contract sv \<Longrightarrow> answered sv m i p"
  by (simp add: answered_def compatibleWith_total)

lemma count_list_filter:
  "count_list (filter P xs) x = (if P x then count_list xs x else 0)"
  by (induction xs) auto

subsection \<open>Sources without versions, and the reading of package.json\<close>

lemma no_versions_getProp: "no_versions b \<Longrightarrow> getProp b k \<noteq> JString s"
  by (auto simp add: no_versions_def getProp_def split: option.splits)

lemma no_versions_incompatible:
  "no_versions b \<Longrightarrow> compatibleWith sv (name, version) b = Inr False"
  by (rule compatibleWith_no_version) (simp add: no_versions_getProp)

lemma no_versions_empty: "no_versions Map.empty"
  by (simp add: no_versions_def)

lemma reconcile_no_versions:
  assumes "no_versions m" and "no_versions i"
  shows "reconcile sv m i deps =
     Inr \<lparr>notInPackageJson = [], notInNodeModules = [], notInBoth = evaluated_pairs deps\<rparr>"
proof -
  have f: "\<And>n v. \<not> isCompatible sv n v m" "\<And>n v. \<not> isCompatible sv n v i"
    using assms by (simp_all add: isCompatible_def no_versions_incompatible)
  have a: "\<And>p. answered sv m i p"
  proof -
    fix p :: "string \<times> string"
    obtain n v where "p = (n, v)" by (cases p)
    then show "answered sv m i p"
      using assms by (auto simp add: answered_def no_versions_incompatible)
  qed
  show ?thesis
    by (simp add: reconcile_filters [OF a] f)
qed

text \<open>
  A \<^verbatim>\<open>package.json\<close> that cannot be read counts as the empty object: both sections
  are \<^verbatim>\<open>undefined\<close> and the function goes on.
\<close>

lemma getPackageJson_unreadable:
  "readJSONSync h (path_join h [dir, ''package.json'']) = Inl e \<Longrightarrow>
   getPackageJson h dir = JsonObject []"
  by (simp add: getPackageJson_def)

lemma warnForPackageDependencies_unreadable:
  "readJSONSync h (path_join h [projectDir, ''package.json'']) = Inl e \<Longrightarrow>
   warnForPackageDependencies h projectDir rest = rest None None"
  by (simp add: warnForPackageDependencies_def getPackageJson_unreadable)

text \<open>Under the library contract the loops return a report for all sources and components.\<close>

lemma reconcile_returns:
  assumes "semver_contract sv"
  shows "\<exists>w. reconcile sv m i deps = Inr w"
proof -
  have a: "\<And>p. p \<in> set (evaluated_pairs deps) \<Longrightarrow> answered sv m i p"
    using assms by (rule contract_answered)
  show ?thesis by (simp add: reconcile_filters [OF a])
qed

subsection \<open>The claims about the report\<close>

text \<open>
  Claim C1. For every component and every declared pair of a name and a version, with
  \<open>inManifest\<close> and \<open>inInstalled\<close> the results of \<^verbatim>\<open>compatibleWith\<close> on the two
  sources: the pair is appended to \<^verbatim>\<open>notInBoth\<close> iff neither holds, to
  \<^verbatim>\<open>notInPackageJson\<close> iff only \<open>inInstalled\<close> holds, to
  \<^verbatim>\<open>notInNodeModules\<close> iff only \<open>inManifest\<close> holds, and to no list iff both hold.
  A list that receives the pair receives it once for each visit of the pair.
\<close>

theorem reconcile_buckets:
  assumes "semver_contract sv"
    and "(name, version) \<in> set (evaluated_pairs dependencies)"
  shows "\<exists>w. reconcile sv manifestSource installedSource dependencies = Inr w \<and>
     ((name, version) \<in> set (notInBoth w)) =
       (\<not> isCompatible sv name version manifestSource \<and>
        \<not> isCompatible sv name version installedSource) \<and>
     ((name, version) \<in> set (notInPackageJson w)) =
       (\<not> isCompatible sv name version manifestSource \<and>
        isCompatible sv name version installedSource) \<and>
     ((name, version) \<in> set (notInNodeModules w)) =
       (isCompatible sv name version manifestSource \<and>
        \<not> isCompatible sv name version installedSource) \<and>
     ((name, version) \<notin> set (notInBoth w) \<union> set (notInPackageJson w) \<union> set (notInNodeModules w)) =
       (isCompatible sv name version manifestSource \<and>
        isCompatible sv name version installedSource) \<and>
     count_list (notInBoth w) (name, version) =
       (if \<not> isCompatible sv name version manifestSource \<and>
           \<not> isCompatible sv name version installedSource
        then count_list (evaluated_pairs dependencies) (name, version) else 0) \<and>
     count_list (notInPackageJson w) (name, version) =
       (if \<not> isCompatible sv name version manifestSource \<and>
           isCompatible sv name version installedSource
        then count_list (evaluated_pairs dependencies) (name, version) else 0) \<and>
     count_list (notInNodeModules w) (name, version) =
       (if isCompatible sv name version manifestSource \<and>
           \<not> isCompatible sv name version installedSource
        then count_list (evaluated_pairs dependencies) (name, version) else 0)"
proof -
  have a: "\<And>p. p \<in> set (evaluated_pairs dependencies) \<Longrightarrow>
      answered sv manifestSource installedSource p"
    using assms(1) by (rule contract_answered)
  show ?thesis
    using assms(2)
    by (simp add: reconcile_filters [OF a] count_list_filter) blast
qed

theorem reconcile_buckets_witness:
  "semver_contract semver_core \<and>
   (''lodash'', ''^4.1.0'') \<in> set (evaluated_pairs components_example) \<and>
   isCompatible semver_core ''lodash'' ''^4.1.0'' manifest_example \<and>
   \<not> isCompatible semver_core ''lodash'' ''^4.1.0'' installed_example \<and>
   (\<exists>w. reconcile semver_core manifest_example installed_example components_example = Inr w \<and>
      (''lodash'', ''^4.1.0'') \<in> set (notInNodeModules w) \<and>
      (''lodash'', ''^4.1.0'') \<notin> set (notInBoth w) \<and>
      (''lodash'', ''^4.1.0'') \<notin> set (notInPackageJson w) \<and>
      count_list (notInNodeModules w) (''lodash'', ''^4.1.0'') = 1)"
proof -
  have mem: "(''lodash'', ''^4.1.0'') \<in> set (evaluated_pairs components_example)"
    by code_simp
  have cnt: "count_list (evaluated_pairs components_example) (''lodash'', ''^4.1.0'') = 1"
    by code_simp
  have inM: "isCompatible semver_core ''lodash'' ''^4.1.0'' manifest_example" by code_simp
  have inI: "\<not> isCompatible semver_core ''lodash'' ''^4.1.0'' installed_example" by code_simp
  show ?thesis
    using semver_core_contract mem cnt inM inI
      reconcile_buckets [OF semver_core_contract mem, of manifest_example installed_example]
    by auto
qed

text \<open>
  Claim C8. Every visited pair is appended to at most one of the three lists: for every pair
  the three lists together hold it at most as often as it is visited, no pair is in two
  lists, and a pair compatible with neither source is in \<^verbatim>\<open>notInBoth\<close> only.
\<close>

theorem reconcile_at_most_one_bucket:
  assumes "semver_contract sv"
  shows "\<exists>w. reconcile sv manifestSource installedSource dependencies = Inr w \<and>
     (\<forall>p. count_list (notInBoth w) p + count_list (notInPackageJson w) p +
           count_list (notInNodeModules w) p
           \<le> count_list (evaluated_pairs dependencies) p) \<and>
     set (notInBoth w) \<inter> set (notInPackageJson w) = {} \<and>
     set (notInBoth w) \<inter> set (notInNodeModules w) = {} \<and>
     set (notInPackageJson w) \<inter> set (notInNodeModules w) = {} \<and>
     (\<forall>name version.
        \<not> isCompatible sv name version manifestSource \<and>
        \<not> isCompatible sv name version installedSource \<longrightarrow>
        (name, version) \<notin> set (notInPackageJson w) \<and>
        (name, version) \<notin> set (notInNodeModules w))"
proof -
  have a: "\<And>p. p \<in> set (evaluated_pairs dependencies) \<Longrightarrow>
      answered sv manifestSource installedSource p"
    using assms(1) by (rule contract_answered)
  show ?thesis
    by (simp add: reconcile_filters [OF a] count_list_filter) auto
qed

theorem reconcile_at_most_one_bucket_witness:
  "semver_contract semver_core \<and>
   (\<exists>w. reconcile semver_core manifest_example installed_example components_example = Inr w \<and>
      count_list (notInBoth w) (''moment'', ''2.0.0'') +
      count_list (notInPackageJson w) (''moment'', ''2.0.0'') +
      count_list (notInNodeModules w) (''moment'', ''2.0.0'') \<le> 1 \<and>
      (''moment'', ''2.0.0'') \<notin> set (notInPackageJson w) \<and>
      (''moment'', ''2.0.0'') \<notin> set (notInNodeModules w))"
proof -
  have cnt: "count_list (evaluated_pairs components_example) (''moment'', ''2.0.0'') = 1"
    by code_simp
  have inM: "\<not> isCompatible semver_core ''moment'' ''2.0.0'' manifest_example" by code_simp
  have inI: "\<not> isCompatible semver_core ''moment'' ''2.0.0'' installed_example" by code_simp
  obtain w where w: "reconcile semver_core manifest_example installed_example components_example
      = Inr w"
    and c: "\<forall>p. count_list (notInBoth w) p + count_list (notInPackageJson w) p +
           count_list (notInNodeModules w) p
           \<le> count_list (evaluated_pairs components_example) p"
    and n: "\<forall>name version.
        \<not> isCompatible semver_core name version manifest_example \<and>
        \<not> isCompatible semver_core name version installed_example \<longrightarrow>
        (name, version) \<notin> set (notInPackageJson w) \<and>
        (name, version) \<notin> set (notInNodeModules w)"
    using reconcile_at_most_one_bucket [OF semver_core_contract,
        of manifest_example installed_example components_example]
    by blast
  have c1: "count_list (notInBoth w) (''moment'', ''2.0.0'') +
      count_list (notInPackageJson w) (''moment'', ''2.0.0'') +
      count_list (notInNodeModules w) (''moment'', ''2.0.0'') \<le> 1"
    using c [rule_format, of "(''moment'', ''2.0.0'')"] cnt by simp
  have n1: "(''moment'', ''2.0.0'') \<notin> set (notInPackageJson w) \<and>
      (''moment'', ''2.0.0'') \<notin> set (notInNodeModules w)"
    using n inM inI by blast
  show ?thesis using semver_core_contract w c1 n1 by blast
qed

text \<open>
  Claim C9. Each of the three lists holds its entries in the order of the visits: the
  components in their order, and within a component its declared dependencies in their
  order. Nothing is sorted, and the report is a function of the input.
\<close>

theorem reconcile_keeps_order:
  assumes "semver_contract sv"
  shows "reconcile sv manifestSource installedSource dependencies =
     Inr \<lparr>notInPackageJson =
            filter (\<lambda>(name, version).
                \<not> isCompatible sv name version manifestSource \<and>
                isCompatible sv name version installedSource)
              (concat (map declared_of dependencies)),
          notInNodeModules =
            filter (\<lambda>(name, version).
                isCompatible sv name version manifestSource \<and>
                \<not> isCompatible sv name version installedSource)
              (concat (map declared_of dependencies)),
          notInBoth =
            filter (\<lambda>(name, version).
                \<not> isCompatible sv name version manifestSource \<and>
                \<not> isCompatible sv name version installedSource)
              (concat (map declared_of dependencies))\<rparr>"
proof -
  have a: "\<And>p. p \<in> set (evaluated_pairs dependencies) \<Longrightarrow>
      answered sv manifestSource installedSource p"
    using assms(1) by (rule contract_answered)
  show ?thesis
    using reconcile_filters [OF a] by (simp add: evaluated_pairs_def)
qed

theorem reconcile_keeps_order_witness:
  "semver_contract semver_core \<and>
   reconcile semver_core manifest_example installed_example components_example =
     Inr \<lparr>notInPackageJson = [(''react'', ''16.0.0'')],
          notInNodeModules = [(''lodash'', ''^4.1.0'')],
          notInBoth = [(''moment'', ''2.0.0''), (''left-pad'', ''1.3.0''), (''axios'', ''0.1.0'')]\<rparr>"
proof -
  have f1: "filter (\<lambda>(name, version).
                \<not> isCompatible semver_core name version manifest_example \<and>
                isCompatible semver_core name version installed_example)
              (concat (map declared_of components_example)) = [(''react'', ''16.0.0'')]"
    by code_simp
  have f2: "filter (\<lambda>(name, version).
                isCompatible semver_core name version manifest_example \<and>
                \<not> isCompatible semver_core name version installed_example)
              (concat (map declared_of components_example)) = [(''lodash'', ''^4.1.0'')]"
    by code_simp
  have f3: "filter (\<lambda>(name, version).
                \<not> isCompatible semver_core name version manifest_example \<and>
                \<not> isCompatible semver_core name version installed_example)
              (concat (map declared_of components_example))
        = [(''moment'', ''2.0.0''), (''left-pad'', ''1.3.0''), (''axios'', ''0.1.0'')]"
    by code_simp
  show ?thesis
    using semver_core_contract
      reconcile_keeps_order [OF semver_core_contract,
        of manifest_example installed_example components_example]
    by (simp only: f1 f2 f3 simp_thms)
qed

text \<open>
  Claim C7 says that an unreadable or absent file gives an empty source and not an error, that
  the reporter never raises, and that with both sources empty every declared dependency goes
  to \<^verbatim>\<open>notInBoth\<close>. The first and the last hold (lemmas
  \<open>getPackageJson_unreadable\<close> and \<open>reconcile_no_versions\<close>). The second fails: a
  \<^verbatim>\<open>package.json\<close> that holds the JSON text \<^verbatim>\<open>null\<close> is read without an
  exception, so the \<^verbatim>\<open>catch\<close> of \<^verbatim>\<open>getPackageJson\<close> does not apply and
  the function returns \<^verbatim>\<open>null\<close>; line 116 then reads
  \<^verbatim>\<open>packageJson.dependencies\<close> outside any \<^verbatim>\<open>try\<close> and
  \<^verbatim>\<open>warnForPackageDependencies\<close> throws a \<^verbatim>\<open>TypeError\<close>, whatever the
  rest of the function would do.
\<close>

theorem warnForPackageDependencies_null_package_json:
  assumes "readJSONSync h (path_join h [projectDir, ''package.json'']) = Inr JsonNull"
  shows "getPackageJson h projectDir = JsonNull \<and>
         warnForPackageDependencies h projectDir rest = Inl TypeError"
  using assms by (simp add: warnForPackageDependencies_def getPackageJson_def)

theorem warnForPackageDependencies_null_package_json_witness:
  "readJSONSync null_host (path_join null_host [''/project'', ''package.json'']) = Inr JsonNull \<and>
   getPackageJson null_host ''/project'' = JsonNull \<and>
   reconcile semver_core Map.empty Map.empty components_example =
     Inr \<lparr>notInPackageJson = [], notInNodeModules = [],
          notInBoth =
            [(''moment'', ''2.0.0''), (''lodash'', ''^4.1.0''), (''react'', ''16.0.0''),
             (''left-pad'', ''1.3.0''), (''chalk'', ''^2.0.0''), (''axios'', ''0.1.0'')]\<rparr> \<and>
   warnForPackageDependencies null_host ''/project''
     (\<lambda>dependencies devDependencies.
        reconcile semver_core Map.empty Map.empty components_example) = Inl TypeError \<and>
   warnForPackageDependencies unreadable_host ''/project''
     (\<lambda>dependencies devDependencies.
        reconcile semver_core Map.empty Map.empty components_example) =
     reconcile semver_core Map.empty Map.empty components_example"
proof -
  have r: "readJSONSync null_host (path_join null_host [''/project'', ''package.json''])
      = Inr JsonNull"
    by (simp add: null_host_def)
  have u: "readJSONSync unreadable_host (path_join unreadable_host [''/project'', ''package.json''])
      = Inl IOError"
    by (simp add: unreadable_host_def)
  have e: "evaluated_pairs components_example =
      [(''moment'', ''2.0.0''), (''lodash'', ''^4.1.0''), (''react'', ''16.0.0''),
       (''left-pad'', ''1.3.0''), (''chalk'', ''^2.0.0''), (''axios'', ''0.1.0'')]"
    by code_simp
  have n: "reconcile semver_core Map.empty Map.empty components_example =
      Inr \<lparr>notInPackageJson = [], notInNodeModules = [],
           notInBoth = evaluated_pairs components_example\<rparr>"
    by (simp add: reconcile_no_versions no_versions_empty)
  show ?thesis
    using r e n warnForPackageDependencies_unreadable [OF u]
      warnForPackageDependencies_null_package_json [OF r,
        of "\<lambda>dependencies devDependencies.
              reconcile semver_core Map.empty Map.empty components_example"]
    by simp
qed

end
